theory Spec2Isabelle
  imports Complex_Main "HOL-Library.AList" "HOL-Library.Sublist"
begin

section \<open>Values\<close>

text \<open>
  \<open>app.js\<close> keeps its items in a JSON document and handles them as the values that
  \<open>JSON.parse\<close> and \<open>express.json()\<close> deliver. A Number is an IEEE double: not a
  number, an infinity, or a finite value, which is a rational. The two zeros are one value
  here (\<open>-0 === 0\<close> holds, and both are serialised as \<open>0\<close>).
\<close>

datatype number = NaN | PosInf | NegInf | Fin rat

text \<open>
  An object is the list of its own properties in enumeration order; a string is the
  sequence of the bytes of its UTF-8 encoding.
\<close>

datatype json =
    JNull
  | JBool bool
  | JNum number
  | JStr string
  | JArr "json list"
  | JObj "(string \<times> json) list"

text \<open>
  What a failing operation throws: a file-system error with its code (\<open>ENOENT\<close>,
  \<open>EACCES\<close>, \<open>ENOSPC\<close>, ...), the \<open>SyntaxError\<close> of \<open>JSON.parse\<close>, or a
  \<open>TypeError\<close>.
\<close>

datatype error = SystemError string | SyntaxError | TypeError

section \<open>The built-in \<open>parseInt\<close>\<close>

text \<open>
  \<open>parseInt(string)\<close> without a radix: leading white space is dropped, then a sign is
  read, then a prefix \<open>0x\<close> or \<open>0X\<close> selects radix 16; the longest run of digits of the
  radix is the integer, and no digit at all gives \<open>NaN\<close>. The integer becomes the nearest
  double.
\<close>

text \<open>The white space and line terminator code points of ECMAScript, in UTF-8.\<close>

definition white_space :: "nat list list" where
  "white_space =
     [[9], [10], [11], [12], [13], [32], [194, 160], [225, 154, 128],
      [226, 128, 128], [226, 128, 129], [226, 128, 130], [226, 128, 131],
      [226, 128, 132], [226, 128, 133], [226, 128, 134], [226, 128, 135],
      [226, 128, 136], [226, 128, 137], [226, 128, 138],
      [226, 128, 168], [226, 128, 169], [226, 128, 175], [226, 129, 159],
      [227, 128, 128], [239, 187, 191]]"

definition white_space_length :: "string \<Rightarrow> nat" where
  "white_space_length s =
     (case List.find (\<lambda>w. prefix w (map of_char s)) white_space of
        None \<Rightarrow> 0
      | Some w \<Rightarrow> length w)"

function trim_start :: "string \<Rightarrow> string" where
  "trim_start s =
     (let n = white_space_length s in if n = 0 then s else trim_start (drop n s))"
  by pat_completeness auto
termination
proof (relation "measure length")
  show "wf (measure length)" by simp
next
  fix s :: string and n :: nat
  assume n: "n = white_space_length s" and pos: "n \<noteq> 0"
  have "s \<noteq> []"
  proof
    assume "s = []"
    then have "white_space_length s = 0"
      by (simp add: white_space_length_def white_space_def)
    with n pos show False by simp
  qed
  with pos show "(drop n s, s) \<in> measure length" by simp
qed

declare trim_start.simps [simp del]

definition digit_value :: "char \<Rightarrow> nat option" where
  "digit_value c =
     (let n = (of_char c :: nat) in
      if 48 \<le> n \<and> n \<le> 57 then Some (n - 48)
      else if 97 \<le> n \<and> n \<le> 122 then Some (n - 87)
      else if 65 \<le> n \<and> n \<le> 90 then Some (n - 55)
      else None)"

definition radix_digit :: "nat \<Rightarrow> char \<Rightarrow> bool" where
  "radix_digit R c = (case digit_value c of None \<Rightarrow> False | Some v \<Rightarrow> v < R)"

definition math_int :: "nat \<Rightarrow> string \<Rightarrow> int" where
  "math_int R Z =
     foldl (\<lambda>acc c. acc * int R + (case digit_value c of None \<Rightarrow> 0 | Some v \<Rightarrow> int v)) 0 Z"

text \<open>The number of binary digits of a positive integer.\<close>

function bit_width :: "int \<Rightarrow> nat" where
  "bit_width n = (if n \<le> 0 then 0 else Suc (bit_width (n div 2)))"
  by pat_completeness auto
termination
  by (relation "measure nat") auto

declare bit_width.simps [simp del]

text \<open>
  The double nearest to an integer: exact up to 53 binary digits, beyond that rounded to
  53 digits with ties to the even significand, and an infinity from \<open>2 ^ 1024\<close> on.
\<close>

definition double_of_int :: "int \<Rightarrow> number" where
  "double_of_int i =
     (let m = \<bar>i\<bar>; k = bit_width m in
      if k \<le> 53 then Fin (of_int i)
      else
        let e = k - 53;
            q = m div 2 ^ e;
            r = m mod 2 ^ e;
            h = 2 ^ (e - 1);
            q' = (if h < r \<or> (r = h \<and> odd q) then q + 1 else q);
            v = q' * 2 ^ e
        in if 2 ^ 1024 \<le> v then (if i < 0 then NegInf else PosInf)
           else Fin (of_int (if i < 0 then - v else v)))"

definition parseInt :: "string \<Rightarrow> number" where
  "parseInt inputString =
     (let S = trim_start inputString;
          sign = (if S \<noteq> [] \<and> hd S = CHR ''-'' then - 1 else 1 :: int);
          S1 = (if S \<noteq> [] \<and> (hd S = CHR ''+'' \<or> hd S = CHR ''-'') then tl S else S);
          hex = (take 2 S1 = ''0x'' \<or> take 2 S1 = ''0X'');
          R = (if hex then 16 else 10);
          S2 = (if hex then drop 2 S1 else S1);
          Z = takeWhile (radix_digit R) S2
      in if Z = [] then NaN else double_of_int (sign * math_int R Z))"

section \<open>The operations of the language that the handlers use\<close>

text \<open>
  \<open>item.id\<close>: the own property of an object, \<open>undefined\<close> (\<open>None\<close>) when the object has
  none and for arrays, strings, numbers and booleans, which inherit none; reading a
  property of \<open>null\<close> throws.
\<close>

fun item_id :: "json \<Rightarrow> error + json option" where
  "item_id (JObj props) = Inr (map_of props ''id'')"
| "item_id JNull = Inl TypeError"
| "item_id other = Inr None"

text \<open>
  \<open>x === id\<close> where \<open>id\<close> is a Number: true only for a Number \<open>x\<close> of the same value,
  and \<open>NaN\<close> equals nothing.
\<close>

fun strict_equals :: "json option \<Rightarrow> number \<Rightarrow> bool" where
  "strict_equals (Some (JNum x)) y = (x \<noteq> NaN \<and> y \<noteq> NaN \<and> x = y)"
| "strict_equals other y = False"

text \<open>The arrow function \<open>item => item.id === id\<close>.\<close>

definition id_matches :: "number \<Rightarrow> json \<Rightarrow> error + bool" where
  "id_matches id' item =
     (case item_id item of Inl e \<Rightarrow> Inl e | Inr x \<Rightarrow> Inr (strict_equals x id'))"

text \<open>
  \<open>Array.prototype.find\<close>: the first element, in index order, on which the predicate
  holds, \<open>undefined\<close> when there is none; an exception of the predicate ends the search.
\<close>

fun array_find :: "('a \<Rightarrow> error + bool) \<Rightarrow> 'a list \<Rightarrow> error + 'a option" where
  "array_find p [] = Inr None"
| "array_find p (x # xs) =
     (case p x of
        Inl e \<Rightarrow> Inl e
      | Inr True \<Rightarrow> Inr (Some x)
      | Inr False \<Rightarrow> array_find p xs)"

text \<open>\<open>data.find(...)\<close>: only an array has the method.\<close>

fun find_in :: "json \<Rightarrow> (json \<Rightarrow> error + bool) \<Rightarrow> error + json option" where
  "find_in (JArr items) p = array_find p items"
| "find_in other p = Inl TypeError"

text \<open>The test \<open>if (item)\<close>.\<close>

fun truthy :: "json option \<Rightarrow> bool" where
  "truthy None = False"
| "truthy (Some JNull) = False"
| "truthy (Some (JBool b)) = b"
| "truthy (Some (JNum x)) = (x \<noteq> NaN \<and> x \<noteq> Fin 0)"
| "truthy (Some (JStr s)) = (s \<noteq> [])"
| "truthy (Some (JArr items)) = True"
| "truthy (Some (JObj props)) = True"

text \<open>
  \<open>newItem.id = v\<close>, as \<open>JSON.stringify\<close> and \<open>res.json\<close> see the value afterwards. On an
  object the property is replaced where it stands, or added after the others. An array
  takes the property, but serialisation writes the elements of an array only, so the
  value is the same array. The module is not in strict mode: the assignment to a string,
  a number or a boolean does nothing. On \<open>null\<close> it throws.
\<close>

fun assign_id :: "json \<Rightarrow> json \<Rightarrow> error + json" where
  "assign_id (JObj props) v = Inr (JObj (AList.update ''id'' v props))"
| "assign_id JNull v = Inl TypeError"
| "assign_id other v = Inr other"

text \<open>\<open>data.push(newItem)\<close>: only an array has the method.\<close>

fun push :: "json \<Rightarrow> json \<Rightarrow> error + json" where
  "push (JArr items) x = Inr (JArr (items @ [x]))"
| "push other x = Inl TypeError"

section \<open>The environment\<close>

text \<open>
  The file \<open>data.json\<close>: its text when it exists, and the error, if any, with which the
  system answers a read or a write of it.
\<close>

record disk =
  content :: "string option"
  read_fault :: "error option"
  write_fault :: "error option"

definition fs_readFile :: "disk \<Rightarrow> error + string" where
  "fs_readFile d =
     (case read_fault d of
        Some e \<Rightarrow> Inl e
      | None \<Rightarrow> (case content d of None \<Rightarrow> Inl (SystemError ''ENOENT'') | Some t \<Rightarrow> Inr t))"

definition fs_writeFile :: "disk \<Rightarrow> string \<Rightarrow> error + disk" where
  "fs_writeFile d t =
     (case write_fault d of
        Some e \<Rightarrow> Inl e
      | None \<Rightarrow> Inr (d\<lparr>content := Some t\<rparr>))"

text \<open>
  The JSON codec of the runtime is a parameter: \<open>JSON_parse\<close> is \<open>JSON.parse\<close>, with its
  \<open>SyntaxError\<close> as a value, and \<open>JSON_stringify v\<close> is \<open>JSON.stringify(v, null, 2)\<close>.
\<close>

record runtime =
  JSON_parse :: "string \<Rightarrow> error + json"
  JSON_stringify :: "json \<Rightarrow> string"

section \<open>\<open>app.js\<close>\<close>

subsection \<open>\<open>readData\<close> and \<open>writeData\<close>\<close>

text \<open>\<open>readData\<close>: whatever is thrown inside \<open>try\<close> is caught, and \<open>[]\<close> returned.\<close>

definition readData :: "runtime \<Rightarrow> disk \<Rightarrow> json" where
  "readData rt d =
     (case fs_readFile d of
        Inl e \<Rightarrow> JArr []
      | Inr t \<Rightarrow> (case JSON_parse rt t of Inl e \<Rightarrow> JArr [] | Inr v \<Rightarrow> v))"

text \<open>\<open>writeData\<close>: nothing is caught.\<close>

definition writeData :: "runtime \<Rightarrow> disk \<Rightarrow> json \<Rightarrow> error + disk" where
  "writeData rt d v = fs_writeFile d (JSON_stringify rt v)"

subsection \<open>The route handlers\<close>

text \<open>
  A handler is an \<open>async\<close> function: it sends one response, or its promise is rejected with
  the error thrown (\<open>Inl\<close>) and the handler has sent nothing. The \<open>body\<close> of a response is
  the value that the handler hands to \<open>res.json\<close>, which sends the text that
  \<open>JSON.stringify\<close> writes for it: the client reads \<open>serialised body\<close>, defined with the
  codec below.
\<close>

record response =
  status :: nat
  body :: json

definition not_found :: response where
  "not_found = \<lparr>status = 404, body = JObj [(''message'', JStr ''Item not found'')]\<rparr>"

text \<open>\<open>app.get('/items')\<close>\<close>

definition get_items :: "runtime \<Rightarrow> disk \<Rightarrow> error + response" where
  "get_items rt d = (let data = readData rt d in Inr \<lparr>status = 200, body = data\<rparr>)"

text \<open>\<open>app.get('/items/:id')\<close>; \<open>param\<close> is \<open>req.params.id\<close>.\<close>

definition get_items_id :: "runtime \<Rightarrow> disk \<Rightarrow> string \<Rightarrow> error + response" where
  "get_items_id rt d param =
     (let id' = parseInt param;
          data = readData rt d
      in case find_in data (id_matches id') of
           Inl e \<Rightarrow> Inl e
         | Inr item \<Rightarrow>
             if truthy item
             then (case item of Some v \<Rightarrow> Inr \<lparr>status = 200, body = v\<rparr> | None \<Rightarrow> Inr not_found)
             else Inr not_found)"

text \<open>
  \<open>app.post('/items')\<close>; \<open>req_body\<close> is \<open>req.body\<close> and \<open>uuid\<close> the string that this
  call of \<open>uuidv4()\<close> returns.
\<close>

definition post_items :: "runtime \<Rightarrow> string \<Rightarrow> disk \<Rightarrow> json \<Rightarrow> error + response \<times> disk" where
  "post_items rt uuid d req_body =
     (let data = readData rt d in
      case assign_id req_body (JStr uuid) of
        Inl e \<Rightarrow> Inl e
      | Inr newItem \<Rightarrow>
          (case push data newItem of
             Inl e \<Rightarrow> Inl e
           | Inr data' \<Rightarrow>
               (case writeData rt d data' of
                  Inl e \<Rightarrow> Inl e
                | Inr d' \<Rightarrow> Inr (\<lparr>status = 201, body = newItem\<rparr>, d'))))"

subsection \<open>The framework around the handlers\<close>

text \<open>
  Modelled from the spec: what Express makes of a handler whose promise is rejected. Express
  is not part of \<open>app.js\<close>, which installs no error handler of its own. The specification
  (section 7) has an uncaught failure end in a generic server-error response with no
  structured error body; a handler that has answered is passed on as it is.
\<close>

datatype client_view = Answered response | Generic_server_error

definition dispatch :: "error + response \<times> disk \<Rightarrow> client_view" where
  "dispatch outcome =
     (case outcome of Inl e \<Rightarrow> Generic_server_error | Inr (r, d') \<Rightarrow> Answered r)"

section \<open>The JSON codec of ECMAScript\<close>




text \<open>\<open>QuoteJSONString\<close>, on the bytes of a UTF-8 string.\<close>

definition hex_digit :: "nat \<Rightarrow> char" where
  "hex_digit n = char_of (if n < 10 then 48 + n else 87 + n)"

definition escape_char :: "char \<Rightarrow> string" where
  "escape_char c =
     (if c = CHR 0x22 then [CHR 0x5C, CHR 0x22]
      else if c = CHR 0x5C then [CHR 0x5C, CHR 0x5C]
      else if c = CHR 0x08 then [CHR 0x5C, CHR ''b'']
      else if c = CHR 0x0C then [CHR 0x5C, CHR ''f'']
      else if c = CHR 0x0A then [CHR 0x5C, CHR ''n'']
      else if c = CHR 0x0D then [CHR 0x5C, CHR ''r'']
      else if c = CHR 0x09 then [CHR 0x5C, CHR ''t'']
      else if (of_char c :: nat) < 32
        then [CHR 0x5C, CHR ''u'', CHR ''0'', CHR ''0'',
              hex_digit (of_char c div 16), hex_digit (of_char c mod 16)]
      else [c])"

definition quote :: "string \<Rightarrow> string" where
  "quote s = CHR 0x22 # concat (map escape_char s) @ [CHR 0x22]"

text \<open>
  \<open>Number::toString\<close> of an integer below \<open>2 ^ 53\<close> in magnitude is its decimal numeral.
\<close>

function decimal :: "int \<Rightarrow> string" where
  "decimal i =
     (if i < 10 then [char_of (48 + nat i)]
      else decimal (i div 10) @ [char_of (48 + nat (i mod 10))])"
  by pat_completeness auto
termination
  by (relation "measure nat") auto

declare decimal.simps [simp del]

definition safe_integer :: "rat \<Rightarrow> bool" where
  "safe_integer r = (of_int \<lfloor>r\<rfloor> = r \<and> \<bar>\<lfloor>r\<rfloor>\<bar> < 2 ^ 53)"

definition integer_text :: "int \<Rightarrow> string" where
  "integer_text i = (if i < 0 then ''-'' else []) @ decimal \<bar>i\<bar>"

text \<open>
  The text of a Number. Where the digits are a matter of floating point, \<open>other\<close>, the
  codec of the runtime, writes them.
\<close>

fun number_text :: "runtime \<Rightarrow> number \<Rightarrow> string" where
  "number_text other (Fin r) =
     (if safe_integer r then integer_text \<lfloor>r\<rfloor> else JSON_stringify other (JNum (Fin r)))"
| "number_text other x = ''null''"

text \<open>\<open>JSON.stringify(v, null, 2)\<close>: \<open>n\<close> is the depth of nesting.\<close>

definition line :: "nat \<Rightarrow> string" where
  "line n = CHR 0x0A # replicate (2 * n) CHR '' ''"

fun text_at :: "runtime \<Rightarrow> nat \<Rightarrow> json \<Rightarrow> string"
  and elements_at :: "runtime \<Rightarrow> nat \<Rightarrow> json list \<Rightarrow> string"
  and members_at :: "runtime \<Rightarrow> nat \<Rightarrow> (string \<times> json) list \<Rightarrow> string" where
  "text_at other n JNull = ''null''"
| "text_at other n (JBool b) = (if b then ''true'' else ''false'')"
| "text_at other n (JNum x) = number_text other x"
| "text_at other n (JStr s) = quote s"
| "text_at other n (JArr items) =
     (if items = [] then ''[]''
      else ''['' @ line (Suc n) @ elements_at other (Suc n) items @ line n @ '']'')"
| "text_at other n (JObj props) =
     (if props = [] then ''{}''
      else ''{'' @ line (Suc n) @ members_at other (Suc n) props @ line n @ ''}'')"
| "elements_at other n [] = []"
| "elements_at other n (v # items) =
     text_at other n v @ (if items = [] then [] else '','' @ line n @ elements_at other n items)"
| "members_at other n [] = []"
| "members_at other n ((k, v) # props) =
     quote k @ '': '' @ text_at other n v
       @ (if props = [] then [] else '','' @ line n @ members_at other n props)"

text \<open>
  \<open>JSON.parse\<close>, on the texts that this reader accepts: \<open>None\<close> says nothing about the
  text, which may well be JSON. The reader leaves to the runtime a Number with a fraction or
  an exponent, an escape \<open>\u\<close> beyond ASCII, and an object whose keys are not pairwise
  distinct and in the order in which the object enumerates them.
\<close>

fun skip_ws :: "string \<Rightarrow> string" where
  "skip_ws [] = []"
| "skip_ws (c # cs) =
     (if c = CHR '' '' \<or> c = CHR 0x09 \<or> c = CHR 0x0A \<or> c = CHR 0x0D then skip_ws cs else c # cs)"

definition simple_escape :: "char \<Rightarrow> char option" where
  "simple_escape e =
     (if e = CHR 0x22 then Some (CHR 0x22)
      else if e = CHR 0x5C then Some (CHR 0x5C)
      else if e = CHR ''/'' then Some (CHR ''/'')
      else if e = CHR ''b'' then Some (CHR 0x08)
      else if e = CHR ''f'' then Some (CHR 0x0C)
      else if e = CHR ''n'' then Some (CHR 0x0A)
      else if e = CHR ''r'' then Some (CHR 0x0D)
      else if e = CHR ''t'' then Some (CHR 0x09)
      else None)"

definition unicode_escape :: "string \<Rightarrow> char option" where
  "unicode_escape hs =
     (if length hs = 4 \<and> list_all (radix_digit 16) hs \<and> math_int 16 hs < 128
      then Some (char_of (math_int 16 hs)) else None)"

fun read_chars :: "string \<Rightarrow> (string \<times> string) option" where
  "read_chars [] = None"
| "read_chars (c # cs) =
     (if c = CHR 0x22 then Some ([], cs)
      else if c = CHR 0x5C then
        (case cs of
           [] \<Rightarrow> None
         | e # cs' \<Rightarrow>
             if e = CHR ''u'' then
               (case unicode_escape (take 4 cs') of
                  None \<Rightarrow> None
                | Some b \<Rightarrow> map_option (\<lambda>(s, r). (b # s, r)) (read_chars (drop 4 cs')))
             else
               (case simple_escape e of
                  None \<Rightarrow> None
                | Some b \<Rightarrow> map_option (\<lambda>(s, r). (b # s, r)) (read_chars cs')))
      else if (of_char c :: nat) < 32 then None
      else map_option (\<lambda>(s, r). (c # s, r)) (read_chars cs))"

definition read_number :: "string \<Rightarrow> (json \<times> string) option" where
  "read_number s =
     (let negative = (s \<noteq> [] \<and> hd s = CHR ''-'');
          s1 = (if negative then tl s else s);
          ds = takeWhile (radix_digit 10) s1;
          r = dropWhile (radix_digit 10) s1
      in if ds = [] \<or> (1 < length ds \<and> hd ds = CHR ''0'') then None
         else if r \<noteq> [] \<and> (hd r = CHR ''.'' \<or> hd r = CHR ''e'' \<or> hd r = CHR ''E'') then None
         else Some (JNum (double_of_int ((if negative then - 1 else 1) * math_int 10 ds)), r))"

text \<open>
  The keys of an object as it enumerates them: array indices first, in ascending order,
  then the other keys in the order of their creation; no key twice.
\<close>

definition array_index :: "string \<Rightarrow> bool" where
  "array_index k =
     (k \<noteq> [] \<and> list_all (radix_digit 10) k \<and> \<not> (1 < length k \<and> hd k = CHR ''0'')
      \<and> math_int 10 k < 4294967295)"

definition own_keys :: "string list \<Rightarrow> bool" where
  "own_keys ks =
     (let indices = takeWhile array_index ks; names = dropWhile array_index ks
      in sorted_wrt (<) (map (math_int 10) indices)
         \<and> list_all (\<lambda>k. \<not> array_index k) names \<and> distinct names)"

fun read_value :: "nat \<Rightarrow> string \<Rightarrow> (json \<times> string) option"
  and read_elements :: "nat \<Rightarrow> string \<Rightarrow> (json list \<times> string) option"
  and read_members :: "nat \<Rightarrow> string \<Rightarrow> ((string \<times> json) list \<times> string) option" where
  "read_value 0 s = None"
| "read_value (Suc n) s =
     (case skip_ws s of
        [] \<Rightarrow> None
      | c # cs \<Rightarrow>
          if c = CHR 0x22 then map_option (\<lambda>(t, r). (JStr t, r)) (read_chars cs)
          else if c = CHR ''['' then
            (if skip_ws cs \<noteq> [] \<and> hd (skip_ws cs) = CHR '']'' then Some (JArr [], tl (skip_ws cs))
             else map_option (\<lambda>(vs, r). (JArr vs, r)) (read_elements n cs))
          else if c = CHR ''{'' then
            (if skip_ws cs \<noteq> [] \<and> hd (skip_ws cs) = CHR ''}'' then Some (JObj [], tl (skip_ws cs))
             else
               (case read_members n cs of
                  None \<Rightarrow> None
                | Some (ms, r) \<Rightarrow> if own_keys (map fst ms) then Some (JObj ms, r) else None))
          else if take 4 (c # cs) = ''null'' then Some (JNull, drop 4 (c # cs))
          else if take 4 (c # cs) = ''true'' then Some (JBool True, drop 4 (c # cs))
          else if take 5 (c # cs) = ''false'' then Some (JBool False, drop 5 (c # cs))
          else read_number (c # cs))"
| "read_elements 0 s = None"
| "read_elements (Suc n) s =
     (case read_value n s of
        None \<Rightarrow> None
      | Some (v, r) \<Rightarrow>
          (case skip_ws r of
             [] \<Rightarrow> None
           | c # r' \<Rightarrow>
               if c = CHR '','' then map_option (\<lambda>(vs, r''). (v # vs, r'')) (read_elements n r')
               else if c = CHR '']'' then Some ([v], r')
               else None))"
| "read_members 0 s = None"
| "read_members (Suc n) s =
     (case skip_ws s of
        [] \<Rightarrow> None
      | q # cs \<Rightarrow>
          if q \<noteq> CHR 0x22 then None
          else
            (case read_chars cs of
               None \<Rightarrow> None
             | Some (k, r) \<Rightarrow>
                 (case skip_ws r of
                    [] \<Rightarrow> None
                  | c # r' \<Rightarrow>
                      if c \<noteq> CHR '':'' then None
                      else
                        (case read_value n r' of
                           None \<Rightarrow> None
                         | Some (v, r'') \<Rightarrow>
                             (case skip_ws r'' of
                                [] \<Rightarrow> None
                              | c' # r3 \<Rightarrow>
                                  if c' = CHR '','' then
                                    map_option (\<lambda>(ms, r4). ((k, v) # ms, r4)) (read_members n r3)
                                  else if c' = CHR ''}'' then Some ([(k, v)], r3)
                                  else None)))))"


text \<open>
  The values for which the reader is shown to read back what is written: those whose finite
  Numbers are all integers below \<open>2 ^ 53\<close> in magnitude, and whose objects have the keys of
  an object. What may follow the text of a value inside a written document is the end, a
  comma or a line break.
\<close>

fun plain :: "json \<Rightarrow> bool" where
  "plain (JNum x) = (case x of Fin r \<Rightarrow> safe_integer r | _ \<Rightarrow> True)"
| "plain (JArr items) = list_all plain items"
| "plain (JObj props) = list_all (\<lambda>(k, v). plain v) props"
| "plain other = True"




section \<open>Example data\<close>

text \<open>
  A store without faults, holding a given text or no file at all, and some items: one with
  a numeric id, the item that \<open>POST /items\<close> makes of \<open>{"name": "Widget"}\<close> when
  \<open>uuidv4()\<close> returns \<open>generated\<close>, and two items with the same id.
\<close>

definition absent :: disk where
  "absent = \<lparr>content = None, read_fault = None, write_fault = None\<rparr>"

definition holding :: "string \<Rightarrow> disk" where
  "holding t = \<lparr>content = Some t, read_fault = None, write_fault = None\<rparr>"

definition generated :: string where
  "generated = ''f47ac10b-58cc-4372-a567-0e02b2c3d479''"

definition widget :: json where
  "widget = JObj [(''id'', JNum (Fin 5)), (''name'', JStr ''Widget'')]"

definition created :: json where
  "created = JObj [(''name'', JStr ''Widget''), (''id'', JStr generated)]"

definition first_twin :: json where
  "first_twin = JObj [(''id'', JNum (Fin 5)), (''name'', JStr ''first'')]"

definition second_twin :: json where
  "second_twin = JObj [(''id'', JNum (Fin 5)), (''name'', JStr ''second'')]"

definition widget_text :: string where
  \<open>widget_text = ''[\<newline>  {\<newline>    "id": 5,\<newline>    "name": "Widget"\<newline>  }\<newline>]''\<close>

definition created_text :: string where
  \<open>created_text = ''[\<newline>  {\<newline>    "name": "Widget",\<newline>    "id": "f47ac10b-58cc-4372-a567-0e02b2c3d479"\<newline>  }\<newline>]''\<close>

definition both_text :: string where
  \<open>both_text = ''[\<newline>  {\<newline>    "id": 5,\<newline>    "name": "Widget"\<newline>  },\<newline>  {\<newline>    "name": "Widget",\<newline>    "id": "f47ac10b-58cc-4372-a567-0e02b2c3d479"\<newline>  }\<newline>]''\<close>

definition twins_text :: string where
  \<open>twins_text = ''[\<newline>  {\<newline>    "name": "Widget",\<newline>    "id": "f47ac10b-58cc-4372-a567-0e02b2c3d479"\<newline>  },\<newline>  {\<newline>    "id": 5,\<newline>    "name": "first"\<newline>  },\<newline>  {\<newline>    "id": 5,\<newline>    "name": "second"\<newline>  }\<newline>]''\<close>

definition nested_text :: string where
  \<open>nested_text = ''[\<newline>  [\<newline>    "Widget"\<newline>  ]\<newline>]''\<close>

text \<open>
  A fragment of the JSON codec, enough to run the examples: each text of the table is what
  \<open>JSON.stringify(v, null, 2)\<close> writes for the value \<open>v\<close> beside it, and \<open>JSON.parse\<close>
  of the text gives that value. The one text outside the table that the examples read,
  \<open>broken_text\<close>, is not JSON.
\<close>

definition documents :: "(string \<times> json) list" where
  "documents =
     [(''[]'', JArr []),
      (widget_text, JArr [widget]),
      (created_text, JArr [created]),
      (both_text, JArr [widget, created]),
      (twins_text, JArr [created, first_twin, second_twin]),
      (nested_text, JArr [JArr [JStr ''Widget'']])]"

definition broken_text :: string where
  \<open>broken_text = ''[\<newline>  {\<newline>    "id": 5,''\<close>

definition node :: runtime where
  "node =
     \<lparr>JSON_parse = (\<lambda>t. case map_of documents t of None \<Rightarrow> Inl SyntaxError | Some v \<Rightarrow> Inr v),
      JSON_stringify =
        (\<lambda>v. case map_of (map (\<lambda>(t, v). (v, t)) documents) v of None \<Rightarrow> ''null'' | Some t \<Rightarrow> t)\<rparr>"

section \<open>Lemmas about the operations\<close>

lemma array_find_member:
  "array_find p xs = Inr (Some x) \<Longrightarrow> x \<in> set xs \<and> p x = Inr True"
  by (induction xs) (auto split: sum.splits bool.splits)

lemma array_find_none:
  "\<forall>y\<in>set ys. p y = Inr False \<Longrightarrow> array_find p ys = Inr None"
  by (induction ys) auto

lemma array_find_first:
  "\<forall>y\<in>set ys. p y = Inr False \<Longrightarrow> p x = Inr True \<Longrightarrow>
   array_find p (ys @ x # zs) = Inr (Some x)"
  by (induction ys) auto

lemma strict_equals_iff:
  "strict_equals v n \<longleftrightarrow> n \<noteq> NaN \<and> v = Some (JNum n)"
  by (cases "(v, n)" rule: strict_equals.cases) auto

lemma id_matches_record:
  "id_matches n (JObj props) = Inr (strict_equals (map_of props ''id'') n)"
  by (simp add: id_matches_def)

lemma id_matches_True:
  assumes "id_matches n item = Inr True"
  shows "n \<noteq> NaN \<and> item_id item = Inr (Some (JNum n)) \<and> (\<exists>props. item = JObj props)"
  using assms by (cases item) (auto simp: id_matches_def strict_equals_iff)

lemma readData_faulty:
  "fs_readFile d = Inl e \<Longrightarrow> readData rt d = JArr []"
  by (simp add: readData_def)

lemma readData_malformed:
  "fs_readFile d = Inr t \<Longrightarrow> JSON_parse rt t = Inl e \<Longrightarrow> readData rt d = JArr []"
  by (simp add: readData_def)


lemma writeData_ok:
  "write_fault d = None \<Longrightarrow>
   writeData rt d v = Inr (d\<lparr>content := Some (JSON_stringify rt v)\<rparr>)"
  by (simp add: writeData_def fs_writeFile_def)

lemma writeData_fails:
  "write_fault d = Some e \<Longrightarrow> writeData rt d v = Inl e"
  by (simp add: writeData_def fs_writeFile_def)

lemma post_items_array:
  assumes "readData rt d = JArr items" and "assign_id req_body (JStr uuid) = Inr newItem"
  shows "post_items rt uuid d req_body =
           (case writeData rt d (JArr (items @ [newItem])) of
              Inl e \<Rightarrow> Inl e
            | Inr d' \<Rightarrow> Inr (\<lparr>status = 201, body = newItem\<rparr>, d'))"
  using assms by (simp add: post_items_def)

lemma get_items_id_found:
  assumes "readData rt d = JArr items"
    and "array_find (id_matches (parseInt param)) items = Inr (Some item)"
  shows "get_items_id rt d param = Inr \<lparr>status = 200, body = item\<rparr>"
proof -
  from assms(2) have "id_matches (parseInt param) item = Inr True"
    by (simp add: array_find_member)
  then obtain props where "item = JObj props"
    using id_matches_True by blast
  with assms show ?thesis
    by (simp add: get_items_id_def)
qed

lemma get_items_id_missing:
  assumes "readData rt d = JArr items"
    and "array_find (id_matches (parseInt param)) items = Inr None"
  shows "get_items_id rt d param = Inr not_found"
  using assms by (simp add: get_items_id_def)

lemma get_items_id_200:
  assumes "get_items_id rt d param = Inr r" and "status r = 200"
  shows "\<exists>items. readData rt d = JArr items \<and>
           array_find (id_matches (parseInt param)) items = Inr (Some (body r))"
proof -
  obtain items where data: "readData rt d = JArr items"
    using assms(1) by (cases "readData rt d") (simp_all add: get_items_id_def)
  show ?thesis
  proof (cases "array_find (id_matches (parseInt param)) items")
    case (Inl e)
    with data assms(1) show ?thesis by (simp add: get_items_id_def)
  next
    case (Inr found)
    show ?thesis
    proof (cases found)
      case None
      with Inr data have "get_items_id rt d param = Inr not_found"
        by (simp add: get_items_id_missing)
      with assms(1) have "r = not_found" by simp
      with assms(2) show ?thesis by (simp add: not_found_def)
    next
      case (Some item)
      with Inr data have "get_items_id rt d param = Inr \<lparr>status = 200, body = item\<rparr>"
        by (simp add: get_items_id_found)
      with assms(1) have "body r = item" by auto
      with data Inr Some show ?thesis by simp
    qed
  qed
qed


subsection \<open>The codec reads back what it writes\<close>

lemma skip_ws_line [simp]: "skip_ws (line n @ s) = skip_ws s"
  by (induction n) (simp_all add: line_def)

lemma skip_ws_spaces [simp]: "skip_ws (replicate n CHR '' '' @ s) = skip_ws s"
  by (induction n) simp_all






lemma digit_value_decimal_digit:
  "d < 10 \<Longrightarrow> digit_value (char_of (48 + d)) = Some d"
  by (auto simp: digit_value_def Let_def)

lemma radix_digit_decimal_digit: "d < 10 \<Longrightarrow> radix_digit 10 (char_of (48 + (d::nat)))"
  by (simp add: radix_digit_def digit_value_decimal_digit)


lemma decimal_digits: "0 \<le> i \<Longrightarrow> list_all (radix_digit 10) (decimal i)"
proof (induction i rule: decimal.induct)
  case (1 i)
  show ?case
  proof (cases "i < 10")
    case True
    with "1.prems" have "nat i < 10" by simp
    with True show ?thesis
      by (subst decimal.simps) (simp add: radix_digit_decimal_digit)
  next
    case False
    with "1.prems" have "nat (i mod 10) < 10" by simp
    moreover from False "1.prems" "1.IH" have "list_all (radix_digit 10) (decimal (i div 10))"
      by simp
    ultimately show ?thesis
      using False by (subst decimal.simps) (simp add: radix_digit_decimal_digit)
  qed
qed

lemma decimal_not_empty: "decimal i \<noteq> []"
  by (subst decimal.simps) simp









lemma not_digits:
  "\<not> radix_digit 10 CHR '',''" "\<not> radix_digit 10 CHR 0x0A" "\<not> radix_digit 10 CHR ''-''"
  "\<not> radix_digit 10 CHR '' ''" "\<not> radix_digit 10 CHR 0x09" "\<not> radix_digit 10 CHR 0x0D"
  "\<not> radix_digit 10 CHR '']''" "\<not> radix_digit 10 CHR ''}''" "\<not> radix_digit 10 CHR 0x22"
  "\<not> radix_digit 10 CHR ''[''" "\<not> radix_digit 10 CHR ''{''" "\<not> radix_digit 10 CHR ''n''"
  "\<not> radix_digit 10 CHR ''t''" "\<not> radix_digit 10 CHR ''f''"
  by (simp_all add: radix_digit_def digit_value_def)


lemma integer_text_start:
  "\<exists>c t. integer_text i = c # t \<and> (c = CHR ''-'' \<or> radix_digit 10 c)"
proof (cases "i < 0")
  case True
  then show ?thesis by (simp add: integer_text_def)
next
  case False
  obtain c t where ct: "decimal \<bar>i\<bar> = c # t"
    using decimal_not_empty by (cases "decimal \<bar>i\<bar>") auto
  have "list_all (radix_digit 10) (decimal \<bar>i\<bar>)" by (simp add: decimal_digits)
  with ct have "radix_digit 10 c" by simp
  with ct False show ?thesis by (simp add: integer_text_def)
qed

lemma skip_ws_idem [simp]: "skip_ws (skip_ws s) = skip_ws s"
  by (induction s) simp_all

lemma read_value_skip_ws: "read_value n (skip_ws s) = read_value n s"
  by (cases n) simp_all

lemma read_value_line [simp]: "read_value n (line j @ s) = read_value n s"
  by (metis read_value_skip_ws skip_ws_line)

lemma read_value_space [simp]: "read_value n (CHR '' '' # s) = read_value n s"
  by (cases n) simp_all

lemma read_elements_line [simp]: "read_elements n (line j @ s) = read_elements n s"
  by (cases n) simp_all

lemma read_members_line [simp]: "read_members n (line j @ s) = read_members n s"
  by (cases n) simp_all

lemma text_at_start:
  assumes "plain v"
  shows "\<exists>c t. text_at other i v = c # t
           \<and> c \<notin> {CHR '' '', CHR 0x09, CHR 0x0A, CHR 0x0D, CHR '']'', CHR ''}''}"
proof (cases v)
  case (JNum x)
  show ?thesis
  proof (cases x)
    case (Fin r)
    with JNum assms have "text_at other i v = integer_text \<lfloor>r\<rfloor>" by simp
    moreover obtain c t where "integer_text \<lfloor>r\<rfloor> = c # t" "c = CHR ''-'' \<or> radix_digit 10 c"
      using integer_text_start by blast
    ultimately show ?thesis by (auto simp: not_digits)
  qed (use JNum in simp_all)
qed (simp_all add: quote_def)

lemma skip_ws_text_at:
  assumes "plain v"
  shows "skip_ws (text_at other i v @ r) = text_at other i v @ r"
proof -
  from assms obtain c t where "text_at other i v = c # t"
    "c \<notin> {CHR '' '', CHR 0x09, CHR 0x0A, CHR 0x0D, CHR '']'', CHR ''}''}"
    using text_at_start by blast
  then show ?thesis by simp
qed


















section \<open>Properties of the handlers\<close>

text \<open>
  \<^bold>\<open>C1.\<close> The claim: for an id that is the id of some item of the collection,
  \<open>GET /items/{id}\<close> returns 200 with that item. The handler does not do this for the items
  that \<open>POST /items\<close> creates: starting from no file, \<open>POST\<close> of \<open>{"name": "Widget"}\<close>
  stores and returns the item with the id \<open>generated\<close>, and \<open>GET /items/generated\<close> on the
  resulting document answers 404, since the id parsed from the path is a Number and the
  stored id a string.
\<close>

theorem created_item_not_found:
  "post_items node generated absent (JObj [(''name'', JStr ''Widget'')])
     = Inr (\<lparr>status = 201, body = created\<rparr>, holding created_text)
   \<and> get_items_id node (holding created_text) generated
     = Inr \<lparr>status = 404, body = JObj [(''message'', JStr ''Item not found'')]\<rparr>"
  by code_simp

text \<open>
  \<^bold>\<open>C2.\<close> The claim: for every valid JSON body, the item echoed with 201 has the generated
  identifier in its \<open>id\<close> field, and that identifier differs from any id the client
  supplied. For a body that is an object, the echoed and stored item has \<open>id\<close> equal to the
  generated identifier whatever the body held there; it differs from the id of the body
  unless the body held that very string.
\<close>

theorem post_items_overwrites_id:
  assumes "readData rt d = JArr items" and "write_fault d = None"
  shows "\<exists>props'. post_items rt uuid d (JObj props)
           = Inr (\<lparr>status = 201, body = JObj props'\<rparr>,
                  d\<lparr>content := Some (JSON_stringify rt (JArr (items @ [JObj props'])))\<rparr>)
         \<and> map_of props' ''id'' = Some (JStr uuid)
         \<and> (map_of props ''id'' \<noteq> Some (JStr uuid) \<longrightarrow> map_of props' ''id'' \<noteq> map_of props ''id'')"
proof -
  let ?props' = "AList.update ''id'' (JStr uuid) props"
  have "assign_id (JObj props) (JStr uuid) = Inr (JObj ?props')" by simp
  with assms have "post_items rt uuid d (JObj props)
      = Inr (\<lparr>status = 201, body = JObj ?props'\<rparr>,
             d\<lparr>content := Some (JSON_stringify rt (JArr (items @ [JObj ?props'])))\<rparr>)"
    by (simp add: post_items_array writeData_ok)
  moreover have "map_of ?props' ''id'' = Some (JStr uuid)"
    by (simp add: update_conv')
  ultimately show ?thesis by metis
qed

text \<open>
  An instance: the body \<open>{"name": "Widget", "id": "mine"}\<close>, with no file yet.
\<close>

theorem post_items_overwrites_id_witness:
  "readData node absent = JArr [] \<and> write_fault absent = None
   \<and> post_items node generated absent (JObj [(''name'', JStr ''Widget''), (''id'', JStr ''mine'')])
       = Inr (\<lparr>status = 201, body = created\<rparr>, holding created_text)
   \<and> item_id created = Inr (Some (JStr generated))
   \<and> map_of [(''name'', JStr ''Widget''), (''id'', JStr ''mine'')] ''id'' \<noteq> Some (JStr generated)"
proof -
  have h1: "readData node absent = JArr []" by code_simp
  have h2: "write_fault absent = None" by code_simp
  have run: "post_items node generated absent (JObj [(''name'', JStr ''Widget''), (''id'', JStr ''mine'')])
       = Inr (\<lparr>status = 201, body = created\<rparr>, holding created_text)
   \<and> item_id created = Inr (Some (JStr generated))
   \<and> map_of [(''name'', JStr ''Widget''), (''id'', JStr ''mine'')] ''id'' \<noteq> Some (JStr generated)"
    by code_simp
  show ?thesis
    using h1 h2 run
      post_items_overwrites_id [OF h1 h2, of generated "[(''name'', JStr ''Widget''), (''id'', JStr ''mine'')]"]
    by blast
qed

text \<open>
  The claim of C2 as it is written fails on a body that is an array, which \<open>express.json()\<close>
  accepts: the response is the array, which has no \<open>id\<close>. It also fails where the client sends
  the identifier that \<open>uuidv4()\<close> then returns: the echoed id is the client's.
\<close>

theorem post_items_id_counterexample:
  "post_items node generated absent (JArr [JStr ''Widget''])
     = Inr (\<lparr>status = 201, body = JArr [JStr ''Widget'']\<rparr>, holding nested_text)
   \<and> item_id (JArr [JStr ''Widget'']) = Inr None
   \<and> post_items node generated absent (JObj [(''name'', JStr ''Widget''), (''id'', JStr generated)])
     = Inr (\<lparr>status = 201, body = created\<rparr>, holding created_text)
   \<and> item_id created = Inr (Some (JStr generated))"
  by code_simp




text \<open>
  \<^bold>\<open>C4.\<close> Whatever fails while the document is read, \<open>readFile\<close> (the file is absent, or
  any other error) or \<open>JSON.parse\<close> (the text is malformed), \<open>readData\<close> returns the empty
  array and \<open>GET /items\<close> answers 200 with \<open>[]\<close>.
\<close>

theorem readData_falls_back:
  assumes "fs_readFile d = Inl e \<or> (\<exists>t. fs_readFile d = Inr t \<and> JSON_parse rt t = Inl e)"
  shows "readData rt d = JArr [] \<and> get_items rt d = Inr \<lparr>status = 200, body = JArr []\<rparr>"
proof -
  from assms have "readData rt d = JArr []"
    by (auto simp: readData_faulty readData_malformed)
  then show ?thesis by (simp add: get_items_def)
qed

text \<open>
  An instance: a document cut off in the middle.
\<close>

theorem readData_falls_back_witness:
  "fs_readFile (holding broken_text) = Inr broken_text
   \<and> JSON_parse node broken_text = Inl SyntaxError
   \<and> readData node (holding broken_text) = JArr []
   \<and> get_items node (holding broken_text) = Inr \<lparr>status = 200, body = JArr []\<rparr>"
proof -
  have h1: "fs_readFile (holding broken_text) = Inr broken_text" by code_simp
  have h2: "JSON_parse node broken_text = Inl SyntaxError" by code_simp
  from h1 h2 have "fs_readFile (holding broken_text) = Inl SyntaxError
      \<or> (\<exists>t. fs_readFile (holding broken_text) = Inr t \<and> JSON_parse node t = Inl SyntaxError)"
    by blast
  from readData_falls_back [OF this] h1 h2 show ?thesis by blast
qed

text \<open>
  \<^bold>\<open>C5.\<close> The claim: for an id that is the id of no item, \<open>GET /items/{id}\<close> returns 404 with
  the body \<open>{"message":"Item not found"}\<close>. What holds: for a collection of objects none of
  which has as \<open>id\<close> the Number that \<open>parseInt\<close> reads from the path segment, the
  response is 404 with exactly that body.
\<close>

theorem get_items_id_not_found:
  assumes "readData rt d = JArr items"
    and "\<forall>item\<in>set items. \<exists>props. item = JObj props \<and> map_of props ''id'' \<noteq> Some (JNum (parseInt param))"
  shows "get_items_id rt d param
           = Inr \<lparr>status = 404, body = JObj [(''message'', JStr ''Item not found'')]\<rparr>"
proof -
  from assms(2) have "\<forall>item\<in>set items. id_matches (parseInt param) item = Inr False"
    by (auto simp: id_matches_record strict_equals_iff)
  then have "array_find (id_matches (parseInt param)) items = Inr None"
    by (rule array_find_none)
  with assms(1) have "get_items_id rt d param = Inr not_found"
    by (rule get_items_id_missing)
  then show ?thesis by (simp add: not_found_def)
qed

text \<open>
  An instance: the segment \<open>6\<close> and a collection whose only id is 5.
\<close>

theorem get_items_id_not_found_witness:
  "readData node (holding widget_text) = JArr [widget]
   \<and> widget = JObj [(''id'', JNum (Fin 5)), (''name'', JStr ''Widget'')]
   \<and> map_of [(''id'', JNum (Fin 5)), (''name'', JStr ''Widget'')] ''id'' \<noteq> Some (JNum (parseInt ''6''))
   \<and> get_items_id node (holding widget_text) ''6''
       = Inr \<lparr>status = 404, body = JObj [(''message'', JStr ''Item not found'')]\<rparr>"
proof -
  have h1: "readData node (holding widget_text) = JArr [widget]" by code_simp
  have w: "widget = JObj [(''id'', JNum (Fin 5)), (''name'', JStr ''Widget'')]"
    by (simp add: widget_def)
  have ne: "map_of [(''id'', JNum (Fin 5)), (''name'', JStr ''Widget'')] ''id'' \<noteq> Some (JNum (parseInt ''6''))"
    by code_simp
  from w ne have "\<exists>props. widget = JObj props
      \<and> map_of props ''id'' \<noteq> Some (JNum (parseInt ''6''))"
    by (intro exI conjI)
  then have h2: "\<forall>item\<in>set [widget]. \<exists>props. item = JObj props
      \<and> map_of props ''id'' \<noteq> Some (JNum (parseInt ''6''))"
    by simp
  from get_items_id_not_found [OF h1 h2] h1 w ne show ?thesis by blast
qed

text \<open>
  The claim of C5 as it is written fails: the only id of the collection is the Number 5, the
  segment \<open>5abc\<close> is the id of no item, and the response is 200 with the item 5, because
  \<open>parseInt\<close> stops at the first character that is not a digit.
\<close>

theorem get_items_id_trailing_text_counterexample:
  "readData node (holding widget_text) = JArr [widget]
   \<and> item_id widget = Inr (Some (JNum (Fin 5)))
   \<and> get_items_id node (holding widget_text) ''5abc'' = Inr \<lparr>status = 200, body = widget\<rparr>"
  by code_simp



text \<open>
  \<^bold>\<open>C7.\<close> The lookup is first-match: when an item's \<open>id\<close> is the Number read from the path
  segment and no item before it has that \<open>id\<close>, the response is 200 with that item,
  whatever follows it in the collection, further items with the same \<open>id\<close> included.
\<close>

theorem get_items_id_first_match:
  assumes "readData rt d = JArr (before @ JObj props # after)"
    and "parseInt param \<noteq> NaN"
    and "map_of props ''id'' = Some (JNum (parseInt param))"
    and "\<forall>item\<in>set before. \<exists>ps. item = JObj ps \<and> map_of ps ''id'' \<noteq> Some (JNum (parseInt param))"
  shows "get_items_id rt d param = Inr \<lparr>status = 200, body = JObj props\<rparr>"
proof -
  from assms(4) have "\<forall>item\<in>set before. id_matches (parseInt param) item = Inr False"
    by (auto simp: id_matches_record strict_equals_iff)
  moreover from assms(2,3) have "id_matches (parseInt param) (JObj props) = Inr True"
    by (simp add: id_matches_record strict_equals_iff)
  ultimately have "array_find (id_matches (parseInt param)) (before @ JObj props # after)
      = Inr (Some (JObj props))"
    by (rule array_find_first)
  with assms(1) show ?thesis by (rule get_items_id_found)
qed

text \<open>
  An instance: three items, the second and the third with the id 5.
\<close>

theorem get_items_id_first_match_witness:
  "readData node (holding twins_text)
     = JArr ([created] @ JObj [(''id'', JNum (Fin 5)), (''name'', JStr ''first'')] # [second_twin])
   \<and> parseInt ''5'' \<noteq> NaN
   \<and> map_of [(''id'', JNum (Fin 5)), (''name'', JStr ''first'')] ''id'' = Some (JNum (parseInt ''5''))
   \<and> created = JObj [(''name'', JStr ''Widget''), (''id'', JStr generated)]
   \<and> map_of [(''name'', JStr ''Widget''), (''id'', JStr generated)] ''id'' \<noteq> Some (JNum (parseInt ''5''))
   \<and> item_id second_twin = Inr (Some (JNum (parseInt ''5'')))
   \<and> get_items_id node (holding twins_text) ''5''
       = Inr \<lparr>status = 200, body = JObj [(''id'', JNum (Fin 5)), (''name'', JStr ''first'')]\<rparr>"
proof -
  have h1: "readData node (holding twins_text)
      = JArr ([created] @ JObj [(''id'', JNum (Fin 5)), (''name'', JStr ''first'')] # [second_twin])"
    by code_simp
  have h2: "parseInt ''5'' \<noteq> NaN" by code_simp
  have h3: "map_of [(''id'', JNum (Fin 5)), (''name'', JStr ''first'')] ''id'' = Some (JNum (parseInt ''5''))"
    by code_simp
  have c: "created = JObj [(''name'', JStr ''Widget''), (''id'', JStr generated)]"
    by (simp add: created_def)
  have ne: "map_of [(''name'', JStr ''Widget''), (''id'', JStr generated)] ''id'' \<noteq> Some (JNum (parseInt ''5''))"
    by simp
  from c ne have "\<exists>ps. created = JObj ps \<and> map_of ps ''id'' \<noteq> Some (JNum (parseInt ''5''))"
    by (intro exI conjI)
  then have h4: "\<forall>item\<in>set [created]. \<exists>ps. item = JObj ps \<and> map_of ps ''id'' \<noteq> Some (JNum (parseInt ''5''))"
    by simp
  have other: "item_id second_twin = Inr (Some (JNum (parseInt ''5'')))" by code_simp
  from get_items_id_first_match [OF h1 h2 h3 h4] h1 h2 h3 c ne other show ?thesis by blast
qed

text \<open>
  \<^bold>\<open>C8.\<close> When the write of the document fails, \<open>writeData\<close> raises the error, the
  handler of \<open>POST /items\<close> does not catch it and sends no response, so no 201, and the
  client is left with the generic server error of the framework.
\<close>

theorem post_items_write_failure:
  assumes "write_fault d = Some e" and "readData rt d = JArr items" and "req_body \<noteq> JNull"
  shows "writeData rt d v = Inl e
       \<and> post_items rt uuid d req_body = Inl e
       \<and> dispatch (post_items rt uuid d req_body) = Generic_server_error"
proof -
  from assms(1) have w: "\<And>v. writeData rt d v = Inl e"
    by (rule writeData_fails)
  from assms(3) obtain newItem where "assign_id req_body (JStr uuid) = Inr newItem"
    by (cases req_body) simp_all
  with assms(2) w have "post_items rt uuid d req_body = Inl e"
    by (simp add: post_items_array)
  with w show ?thesis by (simp add: dispatch_def)
qed

text \<open>
  An instance: no space left on the device.
\<close>

theorem post_items_write_failure_witness:
  "write_fault (absent\<lparr>write_fault := Some (SystemError ''ENOSPC'')\<rparr>) = Some (SystemError ''ENOSPC'')
   \<and> readData node (absent\<lparr>write_fault := Some (SystemError ''ENOSPC'')\<rparr>) = JArr []
   \<and> JObj [(''name'', JStr ''Widget'')] \<noteq> JNull
   \<and> writeData node (absent\<lparr>write_fault := Some (SystemError ''ENOSPC'')\<rparr>) (JArr [created])
       = Inl (SystemError ''ENOSPC'')
   \<and> post_items node generated (absent\<lparr>write_fault := Some (SystemError ''ENOSPC'')\<rparr>)
         (JObj [(''name'', JStr ''Widget'')])
       = Inl (SystemError ''ENOSPC'')
   \<and> dispatch (post_items node generated (absent\<lparr>write_fault := Some (SystemError ''ENOSPC'')\<rparr>)
         (JObj [(''name'', JStr ''Widget'')]))
       = Generic_server_error"
proof -
  let ?d = "absent\<lparr>write_fault := Some (SystemError ''ENOSPC'')\<rparr>"
  have h1: "write_fault ?d = Some (SystemError ''ENOSPC'')" by simp
  have h2: "readData node ?d = JArr []" by code_simp
  have h3: "JObj [(''name'', JStr ''Widget'')] \<noteq> JNull" by simp
  from post_items_write_failure [OF h1 h2 h3] h1 h2 h3 show ?thesis by blast
qed




text \<open>
  \<^bold>\<open>C10.\<close> \<open>GET /items/{id}\<close> parses the path segment with \<open>parseInt\<close> and compares by
  \<open>===\<close>: a response with status 200 carries an item of the collection whose \<open>id\<close> is
  the Number parsed from the segment, and a collection of items whose ids are all strings
  gives 404 for every segment.
\<close>

theorem get_items_id_number_only:
  "(get_items_id rt d param = Inr r \<and> status r = 200 \<longrightarrow>
      parseInt param \<noteq> NaN
      \<and> item_id (body r) = Inr (Some (JNum (parseInt param)))
      \<and> (\<exists>items. readData rt d = JArr items \<and> body r \<in> set items))
   \<and> (readData rt d = JArr items
        \<and> (\<forall>item\<in>set items. \<exists>props s. item = JObj props \<and> map_of props ''id'' = Some (JStr s)) \<longrightarrow>
      get_items_id rt d param
        = Inr \<lparr>status = 404, body = JObj [(''message'', JStr ''Item not found'')]\<rparr>)"
proof (intro conjI impI)
  assume a: "get_items_id rt d param = Inr r \<and> status r = 200"
  then obtain found where data: "readData rt d = JArr found"
    and f: "array_find (id_matches (parseInt param)) found = Inr (Some (body r))"
    using get_items_id_200 by blast
  from f have m: "body r \<in> set found" "id_matches (parseInt param) (body r) = Inr True"
    by (simp_all add: array_find_member)
  from m(2) show "parseInt param \<noteq> NaN"
    and "item_id (body r) = Inr (Some (JNum (parseInt param)))"
    by (simp_all add: id_matches_True)
  from data m(1) show "\<exists>items. readData rt d = JArr items \<and> body r \<in> set items"
    by blast
next
  assume b: "readData rt d = JArr items
    \<and> (\<forall>item\<in>set items. \<exists>props s. item = JObj props \<and> map_of props ''id'' = Some (JStr s))"
  then have "\<forall>item\<in>set items. id_matches (parseInt param) item = Inr False"
    by (auto simp: id_matches_record strict_equals_iff)
  then have "array_find (id_matches (parseInt param)) items = Inr None"
    by (rule array_find_none)
  with b have "get_items_id rt d param = Inr not_found"
    by (simp add: get_items_id_missing)
  then show "get_items_id rt d param
        = Inr \<lparr>status = 404, body = JObj [(''message'', JStr ''Item not found'')]\<rparr>"
    by (simp add: not_found_def)
qed

text \<open>
  An instance of each part: the segment \<open>" 5.0"\<close> finds the item with the id 5, and
  the identifier of a created item does not find that item.
\<close>

theorem get_items_id_number_only_witness:
  "get_items_id node (holding widget_text) '' 5.0'' = Inr \<lparr>status = 200, body = widget\<rparr>
   \<and> status \<lparr>status = 200, body = widget\<rparr> = 200
   \<and> parseInt '' 5.0'' \<noteq> NaN
   \<and> item_id (body \<lparr>status = 200, body = widget\<rparr>) = Inr (Some (JNum (parseInt '' 5.0'')))
   \<and> readData node (holding created_text) = JArr [created]
   \<and> created = JObj [(''name'', JStr ''Widget''), (''id'', JStr generated)]
   \<and> map_of [(''name'', JStr ''Widget''), (''id'', JStr generated)] ''id'' = Some (JStr generated)
   \<and> get_items_id node (holding created_text) generated
       = Inr \<lparr>status = 404, body = JObj [(''message'', JStr ''Item not found'')]\<rparr>"
proof -
  have h1: "get_items_id node (holding widget_text) '' 5.0'' = Inr \<lparr>status = 200, body = widget\<rparr>"
    by code_simp
  have h2: "status \<lparr>status = 200, body = widget\<rparr> = 200" by simp
  have g1: "readData node (holding created_text) = JArr [created]" by code_simp
  have c: "created = JObj [(''name'', JStr ''Widget''), (''id'', JStr generated)]"
    by (simp add: created_def)
  have i: "map_of [(''name'', JStr ''Widget''), (''id'', JStr generated)] ''id'' = Some (JStr generated)"
    by simp
  from c i have "\<exists>props s. created = JObj props \<and> map_of props ''id'' = Some (JStr s)"
    by (intro exI conjI)
  then have g2: "\<forall>item\<in>set [created]. \<exists>props s. item = JObj props \<and> map_of props ''id'' = Some (JStr s)"
    by simp
  note inst1 = get_items_id_number_only
    [of node "holding widget_text" "'' 5.0''" "\<lparr>status = 200, body = widget\<rparr>"]
  note inst2 = get_items_id_number_only
    [of node "holding created_text" generated _ "[created]"]
  from inst1 h1 h2 have p1: "parseInt '' 5.0'' \<noteq> NaN
      \<and> item_id (body \<lparr>status = 200, body = widget\<rparr>) = Inr (Some (JNum (parseInt '' 5.0'')))"
    by blast
  from inst2 g1 g2 have p2: "get_items_id node (holding created_text) generated
       = Inr \<lparr>status = 404, body = JObj [(''message'', JStr ''Item not found'')]\<rparr>"
    by blast
  from h1 h2 p1 g1 c i p2 show ?thesis by blast
qed

end
